theory Spec2Isabelle
  imports Main
begin

section \<open>Python values used by \<open>app.py\<close>\<close>

text \<open>
  Strings and byte strings are lists of 8-bit characters. Exceptions are values: a class
  and the message that \<open>str(e)\<close> gives. The type \<open>exn\<close> stands for instances of
  Python's \<open>Exception\<close>; every \<open>except Exception\<close> clause of the source therefore
  catches each value of this type.
\<close>

type_synonym bytes = "char list"

datatype exn_class =
    TypeError | AttributeError | KeyError | IndexError | ValueError | RecursionError
  | OSError | FileNotFoundError | EmptyDataError | ParserError
  | RequestException | TimeoutError | OtherError

datatype exn = Exn exn_class string

fun exn_cls :: "exn \<Rightarrow> exn_class" where
  "exn_cls (Exn c m) = c"

fun str_exn :: "exn \<Rightarrow> string" where
  "str_exn (Exn c m) = m"

text \<open>
  The subclass relation among the classes above, as far as the \<open>except\<close> clauses of the
  source can tell them apart: \<open>FileNotFoundError\<close>, \<open>TimeoutError\<close> and requests'
  \<open>RequestException\<close> derive from \<open>OSError\<close> (of which \<open>IOError\<close> is an alias),
  pandas' \<open>EmptyDataError\<close> and \<open>ParserError\<close> from \<open>ValueError\<close>.
\<close>

definition is_subclass :: "exn_class \<Rightarrow> exn_class \<Rightarrow> bool" where
  "is_subclass c d =
     (c = d \<or> (c, d) \<in> set [(FileNotFoundError, OSError), (RequestException, OSError),
                               (TimeoutError, OSError),
                               (EmptyDataError, ValueError), (ParserError, ValueError)])"

definition isinstance :: "exn \<Rightarrow> exn_class \<Rightarrow> bool" where
  "isinstance e c = is_subclass (exn_cls e) c"

text \<open>
  \<open>await x\<close> needs an awaitable. A call of an \<open>async def\<close> function or of an aiofiles
  method gives one; the value returned by a plain \<open>def\<close> function or by a method of a
  synchronous object is not awaitable, and awaiting it raises \<open>TypeError\<close>.
\<close>

datatype 'a awaited = Coroutine 'a | NotAwaitable string 'a

fun await_py :: "'a awaited \<Rightarrow> exn + 'a" where
  "await_py (Coroutine v) = Inr v"
| "await_py (NotAwaitable ty v) =
     Inl (Exn TypeError (''object '' @ ty @ '' can't be used in 'await' expression''))"

subsection \<open>String operations\<close>

abbreviation apos :: string where
  "apos \<equiv> [CHR 0x27]"

text \<open>
  \<open>str.lower\<close> on ASCII: the letters A to Z are mapped to a to z, every other
  character is left as it is.
\<close>

definition lower_char :: "char \<Rightarrow> char" where
  "lower_char c =
     (case map_of (zip ''ABCDEFGHIJKLMNOPQRSTUVWXYZ'' ''abcdefghijklmnopqrstuvwxyz'') c of
        Some d \<Rightarrow> d
      | None \<Rightarrow> c)"

definition lower :: "string \<Rightarrow> string" where
  "lower s = map lower_char s"

definition endswith :: "string \<Rightarrow> string \<Rightarrow> bool" where
  "endswith s suffix =
     (length suffix \<le> length s \<and> drop (length s - length suffix) s = suffix)"

fun startswith :: "string \<Rightarrow> string \<Rightarrow> bool" where
  "startswith s [] = True"
| "startswith [] (p # ps) = False"
| "startswith (c # cs) (p # ps) = (c = p \<and> startswith cs ps)"

text \<open>\<open>py_in sub s\<close> is Python's \<open>sub in s\<close> on strings.\<close>

fun py_in :: "string \<Rightarrow> string \<Rightarrow> bool" where
  "py_in sub [] = (sub = [])"
| "py_in sub (c # cs) = (startswith (c # cs) sub \<or> py_in sub cs)"

text \<open>
  \<open>str.isspace\<close> on the characters below 256, which \<open>str.strip\<close> removes at both
  ends.
\<close>

definition is_space :: "char \<Rightarrow> bool" where
  "is_space c =
     (c \<in> set [CHR 0x09, CHR 0x0A, CHR 0x0B, CHR 0x0C, CHR 0x0D,
                 CHR 0x1C, CHR 0x1D, CHR 0x1E, CHR 0x1F, CHR 0x20, CHR 0x85, CHR 0xA0])"

definition strip :: "string \<Rightarrow> string" where
  "strip s = rev (dropWhile is_space (rev (dropWhile is_space s)))"

fun join :: "string \<Rightarrow> string list \<Rightarrow> string" where
  "join sep [] = []"
| "join sep [x] = x"
| "join sep (x # y # ys) = x @ sep @ join sep (y # ys)"

definition digit_char :: "nat \<Rightarrow> char" where
  "digit_char d = ''0123456789'' ! d"

fun str_nat :: "nat \<Rightarrow> string" where
  "str_nat n = (if n < 10 then [digit_char n] else str_nat (n div 10) @ [digit_char (n mod 10)])"

definition str_int :: "int \<Rightarrow> string" where
  "str_int i = (if i < 0 then ''-'' @ str_nat (nat (- i)) else str_nat (nat i))"

subsection \<open>Paths\<close>

text \<open>
  \<open>os.path.splitext\<close> on POSIX: the extension starts at the last dot of the last path
  component, unless that component has only dots before it.
\<close>

definition basename :: "string \<Rightarrow> string" where
  "basename p = rev (takeWhile (\<lambda>c. c \<noteq> CHR ''/'') (rev p))"

definition splitext :: "string \<Rightarrow> string \<times> string" where
  "splitext p =
     (let name = basename p;
          ext = CHR ''.'' # rev (takeWhile (\<lambda>c. c \<noteq> CHR ''.'') (rev name));
          stem = take (length name - length ext) name
      in if CHR ''.'' \<in> set name \<and> (\<exists>c \<in> set stem. c \<noteq> CHR ''.'')
         then (take (length p - length ext) p, ext)
         else (p, []))"

definition path_join :: "string \<Rightarrow> string \<Rightarrow> string" where
  "path_join a b =
     (if startswith b ''/'' then b
      else if a = [] \<or> endswith a ''/'' then a @ b
      else a @ ''/'' @ b)"

section \<open>Configuration\<close>

definition ALLOWED_EXTENSIONS :: "string list" where
  "ALLOWED_EXTENSIONS = [''csv'', ''xlsx'', ''xls'', ''zip'', ''md'']"

definition MAX_FILE_SIZE :: nat where
  "MAX_FILE_SIZE = 50 * 1024 * 1024"

definition LLM_ENDPOINT :: string where
  "LLM_ENDPOINT =
     ''https://llmfoundry.straive.com/gemini/v1beta/models/gemini-2.0-flash-001:generateContent''"

section \<open>The environment: files and external collaborators\<close>

text \<open>
  The file system is a map from paths to contents. The libraries and services the program
  calls (pandas, zipfile, werkzeug, hashlib, the subprocess layer, the remote model) are
  not part of the repository; each is a field of the record \<open>env\<close>, a function from
  what the call reads to what it returns or raises. Every theorem below holds for every
  \<open>env\<close>.
\<close>

type_synonym fs = "string \<rightharpoonup> bytes"

datatype label = StrLabel string | OtherLabel string

record dataframe =
  df_num_rows :: nat
  df_columns :: "label list"
  df_head_to_string :: "nat \<Rightarrow> bool \<Rightarrow> exn + string"

datatype json =
    JNull | JBool bool | JNum int | JStr string | JArr "json list" | JObj "(string \<times> json) list"

record http_response =
  status_code :: nat
  reason :: string
  json_result :: "exn + json"

record process_result =
  returncode :: int
  stdout :: bytes
  stderr :: bytes

record env =
  secure_filename :: "string \<Rightarrow> string"
  gettempdir :: string
  mkdtemp :: string
  write_error :: "string \<Rightarrow> exn option"
  read_error :: "string \<Rightarrow> exn option"
  decode_text :: "bytes \<Rightarrow> exn + string"
  csv_probe :: "bytes \<Rightarrow> exn + unit"
  excel_probe :: "bytes \<Rightarrow> exn + unit"
  read_csv :: "bytes \<Rightarrow> exn + dataframe"
  read_excel :: "bytes \<Rightarrow> exn + (string \<times> dataframe) list"
  zip_open :: "bytes \<Rightarrow> exn + (string \<times> (exn + bytes)) list"
  sha256_hexdigest :: "bytes \<Rightarrow> string"
  run_process :: "string \<Rightarrow> string option \<Rightarrow> exn + process_result"
  llm_post :: "json \<Rightarrow> exn + http_response"

text \<open>What the program does to the outside world, in order.\<close>

datatype effect = RunCommand string "string option" | RemoteCall json

definition and_then :: "exn + 'a \<Rightarrow> ('a \<Rightarrow> exn + 'b) \<Rightarrow> exn + 'b" where
  "and_then r f = (case r of Inl e \<Rightarrow> Inl e | Inr v \<Rightarrow> f v)"

definition file_not_found :: "string \<Rightarrow> exn" where
  "file_not_found path =
     Exn FileNotFoundError (''[Errno 2] No such file or directory: '' @ apos @ path @ apos)"

text \<open>Opening a file for reading and reading all of it.\<close>

definition open_read :: "env \<Rightarrow> fs \<Rightarrow> string \<Rightarrow> exn + bytes" where
  "open_read env files path =
     (case read_error env path of
        Some e \<Rightarrow> Inl e
      | None \<Rightarrow> (case files path of None \<Rightarrow> Inl (file_not_found path) | Some b \<Rightarrow> Inr b))"

section \<open>Upload validation\<close>

definition is_file_allowed :: "string \<Rightarrow> bool" where
  "is_file_allowed filename =
     list_ex (\<lambda>ext. endswith (lower filename) ext) ALLOWED_EXTENSIONS"

section \<open>File type classifier\<close>

definition extension_map :: "(string \<times> string) list" where
  "extension_map =
     [(''.zip'', ''zip''), (''.csv'', ''csv''), (''.xlsx'', ''excel''),
      (''.xls'', ''excel''), (''.md'', ''md'')]"

definition identify_file_type :: "env \<Rightarrow> fs \<Rightarrow> string \<Rightarrow> string" where
  "identify_file_type env files file_path =
     (let extension = lower (snd (splitext file_path)) in
      case map_of extension_map extension of
        Some t \<Rightarrow> t
      | None \<Rightarrow>
          (case and_then (open_read env files file_path) (csv_probe env) of
             Inr u \<Rightarrow> ''csv''
           | Inl e \<Rightarrow>
               if isinstance e EmptyDataError then ''unknown''
               else (case and_then (open_read env files file_path) (excel_probe env) of
                       Inr u \<Rightarrow> ''excel''
                     | Inl e' \<Rightarrow> ''unknown'')))"

section \<open>Content summarizers\<close>

fun label_strings :: "nat \<Rightarrow> label list \<Rightarrow> exn + string list" where
  "label_strings i [] = Inr []"
| "label_strings i (StrLabel s # ls) =
     and_then (label_strings (Suc i) ls) (\<lambda>ss. Inr (s # ss))"
| "label_strings i (OtherLabel ty # ls) =
     Inl (Exn TypeError (''sequence item '' @ str_nat i @ '': expected str instance, ''
                          @ ty @ '' found''))"

definition join_labels :: "string \<Rightarrow> label list \<Rightarrow> exn + string" where
  "join_labels sep ls = and_then (label_strings 0 ls) (\<lambda>ss. Inr (join sep ss))"

definition csv_summary :: "dataframe \<Rightarrow> nat \<Rightarrow> exn + string" where
  "csv_summary df num_preview_rows =
     and_then (join_labels '', '' (df_columns df)) (\<lambda>cols.
     and_then (df_head_to_string df num_preview_rows False) (\<lambda>preview.
       Inr (''CSV file with '' @ str_nat (df_num_rows df) @ '' rows and ''
              @ str_nat (length (df_columns df)) @ '' columns.\<newline>''
            @ ''Columns: '' @ cols @ ''.\<newline>''
            @ ''First '' @ str_nat num_preview_rows @ '' rows:\<newline>'' @ preview)))"

definition handle_csv_file :: "env \<Rightarrow> fs \<Rightarrow> string \<Rightarrow> nat \<Rightarrow> exn + string" where
  "handle_csv_file env files csv_path num_preview_rows =
     (case and_then (and_then (open_read env files csv_path) (read_csv env))
                    (\<lambda>df. csv_summary df num_preview_rows) of
        Inr summary \<Rightarrow> Inr summary
      | Inl e \<Rightarrow>
          if isinstance e FileNotFoundError
            then Inr (''Error: The file '' @ apos @ csv_path @ apos @ '' was not found.'')
          else if isinstance e EmptyDataError then Inr ''Error: The file is empty.''
          else if isinstance e ParserError
            then Inr ''Error: There was a problem parsing the file.''
          else Inr (''Error processing CSV: '' @ str_exn e))"

definition sheet_summary :: "string \<times> dataframe \<Rightarrow> exn + string" where
  "sheet_summary sheet =
     (case sheet of (sheet_name, df) \<Rightarrow>
        and_then (join_labels '', '' (df_columns df)) (\<lambda>cols.
        and_then (df_head_to_string df 5 True) (\<lambda>preview.
          Inr (''Sheet '' @ apos @ sheet_name @ apos @ '' has '' @ str_nat (df_num_rows df)
                 @ '' rows and '' @ str_nat (length (df_columns df)) @ '' columns. ''
               @ ''Columns: '' @ cols @ ''. First few rows:\<newline>'' @ preview))))"

fun sheet_summaries :: "(string \<times> dataframe) list \<Rightarrow> exn + string list" where
  "sheet_summaries [] = Inr []"
| "sheet_summaries (sheet # sheets) =
     and_then (sheet_summary sheet) (\<lambda>s.
     and_then (sheet_summaries sheets) (\<lambda>ss. Inr (s # ss)))"

definition handle_excel_file :: "env \<Rightarrow> fs \<Rightarrow> string \<Rightarrow> exn + string" where
  "handle_excel_file env files excel_path =
     (case and_then (and_then (open_read env files excel_path) (read_excel env))
                    (\<lambda>sheets_dict. and_then (sheet_summaries sheets_dict)
                       (\<lambda>info. Inr (join ''\<newline>\<newline>'' info))) of
        Inr summary \<Rightarrow> Inr summary
      | Inl e \<Rightarrow>
          if isinstance e FileNotFoundError
            then Inr (''Error: The file '' @ apos @ excel_path @ apos @ '' was not found.'')
          else if isinstance e EmptyDataError then Inr ''Error: The Excel file is empty.''
          else Inr (''Error processing Excel file: '' @ str_exn e))"

definition handleMarkdownFile :: "env \<Rightarrow> fs \<Rightarrow> string \<Rightarrow> exn + string" where
  "handleMarkdownFile env files md_path =
     (case and_then (and_then (open_read env files md_path) (decode_text env))
                    (\<lambda>content. Inr (''Markdown file content:\<newline>'' @ content)) of
        Inr summary \<Rightarrow> Inr summary
      | Inl e \<Rightarrow>
          if isinstance e FileNotFoundError
            then Inr ''Error: The specified Markdown file was not found.''
          else if isinstance e OSError
            then Inr (''Error reading Markdown file: '' @ str_exn e)
          else Inr (''An unexpected error occurred: '' @ str_exn e))"

section \<open>Archive walker\<close>

text \<open>
  \<open>handle_zip_file\<close> and \<open>collect_file_data\<close> call each other: an entry of an archive
  is written to a temporary file and summarized in turn. Python bounds the nesting of
  calls: \<open>depth\<close> is the number of nested \<open>collect_file_data\<close> calls the interpreter
  still allows, and the call that exceeds it raises \<open>RecursionError\<close>.

  \<open>zip_open\<close> of the environment is \<open>zipfile.ZipFile\<close> applied to the handle that
  \<open>aiofiles.open\<close> returns: it lists the entries or raises. With the aiofiles handle
  of line 99, whose methods return coroutines, it raises \<open>TypeError\<close>; the model
  leaves both outcomes open.
  \<open>zip_ref.open(file)\<close> gives a synchronous file object of the \<open>zipfile\<close> module; its
  \<open>read()\<close> returns \<open>bytes\<close>, to which the source applies \<open>await\<close>.
  \<open>zip_entries\<close> is the body of the \<open>for\<close> loop, \<open>info\<close> the list it appends to.
\<close>

definition remove_file :: "fs \<Rightarrow> string \<Rightarrow> exn + fs" where
  "remove_file files path =
     (case files path of None \<Rightarrow> Inl (file_not_found path) | Some b \<Rightarrow> Inr (files(path := None)))"

fun collect_file_data :: "nat \<Rightarrow> env \<Rightarrow> fs \<Rightarrow> string \<Rightarrow> fs \<times> (exn + string)"
and handle_zip_file :: "nat \<Rightarrow> env \<Rightarrow> fs \<Rightarrow> string \<Rightarrow> fs \<times> (exn + string)"
and zip_entries ::
  "nat \<Rightarrow> env \<Rightarrow> fs \<Rightarrow> (string \<times> (exn + bytes)) list \<Rightarrow> string list \<Rightarrow> fs \<times> (exn + string list)"
where
  "collect_file_data depth env files file_path =
     (let file_type = identify_file_type env files file_path in
      if file_type = ''zip'' then handle_zip_file depth env files file_path
      else if file_type = ''csv'' then (files, handle_csv_file env files file_path 5)
      else if file_type = ''excel'' then (files, handle_excel_file env files file_path)
      else if file_type = ''md'' then (files, handleMarkdownFile env files file_path)
      else (files, Inr ''Unsupported file type''))"
| "handle_zip_file depth env files zip_path =
     (case and_then (open_read env files zip_path) (zip_open env) of
        Inl e \<Rightarrow> (files, Inr (''Error processing ZIP file: '' @ str_exn e))
      | Inr entries \<Rightarrow>
          (case zip_entries depth env files entries [] of
             (files', Inl e) \<Rightarrow> (files', Inr (''Error processing ZIP file: '' @ str_exn e))
           | (files', Inr info) \<Rightarrow> (files', Inr (join ''\<newline>'' info))))"
| "zip_entries depth env files [] info = (files, Inr info)"
| "zip_entries depth env files ((file, member) # rest) info =
     (if endswith file ''/'' then zip_entries depth env files rest info
      else
        case member of
          Inl e \<Rightarrow> (files, Inl e)
        | Inr data \<Rightarrow>
           (case await_py (NotAwaitable ''bytes'' data) of
              Inl e \<Rightarrow> (files, Inl e)
            | Inr file_content \<Rightarrow>
               (let temp_path = path_join (gettempdir env) (secure_filename env file) in
                case write_error env temp_path of
                  Some e \<Rightarrow> (files, Inl e)
                | None \<Rightarrow>
                   (case depth of
                      0 \<Rightarrow> (files(temp_path \<mapsto> file_content),
                            Inl (Exn RecursionError ''maximum recursion depth exceeded''))
                    | Suc d \<Rightarrow>
                       (case collect_file_data d env (files(temp_path \<mapsto> file_content)) temp_path of
                          (files', Inl e) \<Rightarrow> (files', Inl e)
                        | (files', Inr file_info) \<Rightarrow>
                           (case remove_file files' temp_path of
                              Inl e \<Rightarrow> (files', Inl e)
                            | Inr files'' \<Rightarrow>
                                zip_entries depth env files'' rest
                                  (info @ [''File '' @ apos @ file @ apos
                                           @ '' in ZIP contains:\<newline>'' @ file_info])))))))"

section \<open>Local commands\<close>

definition run_command :: "env \<Rightarrow> string \<Rightarrow> string option \<Rightarrow> string \<times> effect list" where
  "run_command env command cwd =
     (case and_then (run_process env command cwd) (\<lambda>process.
             if returncode process \<noteq> 0
             then and_then (decode_text env (stderr process)) (\<lambda>err.
                    Inr (''Error: Command failed with exit code '' @ str_int (returncode process)
                         @ ''. Output: '' @ strip err))
             else and_then (decode_text env (stdout process)) (\<lambda>out. Inr (strip out))) of
        Inr s \<Rightarrow> (s, [RunCommand command cwd])
      | Inl e \<Rightarrow>
          if isinstance e TimeoutError
            then (''Error: Command execution timed out.'', [RunCommand command cwd])
          else (''Error executing command: '' @ str_exn e, [RunCommand command cwd]))"

text \<open>
  \<open>hashlib\<close>: the state of a hash object is the bytes fed to it so far, \<open>update\<close> appends
  a chunk, and \<open>hexdigest\<close> is the digest of the state. The loop reads the open file in
  chunks of 8192 bytes until a read returns no bytes; \<open>rest\<close> is what is left to read.
\<close>

function sha256_loop :: "bytes \<Rightarrow> bytes \<Rightarrow> bytes" where
  "sha256_loop rest sha256_hash =
     (let chunk = take 8192 rest in
      if chunk = [] then sha256_hash
      else sha256_loop (drop 8192 rest) (sha256_hash @ chunk))"
  by pat_completeness auto
termination
  by (relation "measure (\<lambda>(rest, h). length rest)") auto

definition compute_sha256 :: "env \<Rightarrow> fs \<Rightarrow> string \<Rightarrow> string" where
  "compute_sha256 env files file_path =
     (case open_read env files file_path of
        Inr content \<Rightarrow> sha256_hexdigest env (sha256_loop content [])
      | Inl e \<Rightarrow> ''Error calculating SHA256: '' @ str_exn e)"

declare collect_file_data.simps [simp del] handle_zip_file.simps [simp del]
  zip_entries.simps [simp del] sha256_loop.simps [simp del] str_nat.simps [simp del]

section \<open>Remote model collaborator\<close>

text \<open>
  The operations the source applies to the decoded JSON body, with the exceptions Python
  raises when the value has another shape. JSON numbers are modelled as integers.
\<close>

fun type_name :: "json \<Rightarrow> string" where
  "type_name JNull = ''NoneType''"
| "type_name (JBool b) = ''bool''"
| "type_name (JNum n) = ''int''"
| "type_name (JStr s) = ''str''"
| "type_name (JArr xs) = ''list''"
| "type_name (JObj kvs) = ''dict''"

text \<open>A decoded object keeps the last value of a repeated key.\<close>

definition dict_lookup :: "(string \<times> json) list \<Rightarrow> string \<Rightarrow> json option" where
  "dict_lookup kvs k = map_of (rev kvs) k"

fun py_get :: "json \<Rightarrow> string \<Rightarrow> json \<Rightarrow> exn + json" where
  "py_get (JObj kvs) k dflt = Inr (case dict_lookup kvs k of Some v \<Rightarrow> v | None \<Rightarrow> dflt)"
| "py_get j k dflt =
     Inl (Exn AttributeError
            (apos @ type_name j @ apos @ '' object has no attribute '' @ apos @ ''get'' @ apos))"

fun truthy :: "json \<Rightarrow> bool" where
  "truthy JNull = False"
| "truthy (JBool b) = b"
| "truthy (JNum n) = (n \<noteq> 0)"
| "truthy (JStr s) = (s \<noteq> [])"
| "truthy (JArr xs) = (xs \<noteq> [])"
| "truthy (JObj kvs) = (kvs \<noteq> [])"

fun item0 :: "json \<Rightarrow> exn + json" where
  "item0 (JArr []) = Inl (Exn IndexError ''list index out of range'')"
| "item0 (JArr (x # xs)) = Inr x"
| "item0 (JStr []) = Inl (Exn IndexError ''string index out of range'')"
| "item0 (JStr (c # cs)) = Inr (JStr [c])"
| "item0 (JObj kvs) = Inl (Exn KeyError ''0'')"
| "item0 j = Inl (Exn TypeError (apos @ type_name j @ apos @ '' object is not subscriptable''))"

fun item :: "json \<Rightarrow> string \<Rightarrow> exn + json" where
  "item (JObj kvs) k =
     (case dict_lookup kvs k of Some v \<Rightarrow> Inr v | None \<Rightarrow> Inl (Exn KeyError (apos @ k @ apos)))"
| "item (JArr xs) k = Inl (Exn TypeError ''list indices must be integers or slices, not str'')"
| "item (JStr s) k = Inl (Exn TypeError (''string indices must be integers, not '' @ apos @ ''str'' @ apos))"
| "item j k = Inl (Exn TypeError (apos @ type_name j @ apos @ '' object is not subscriptable''))"

fun str_strip :: "json \<Rightarrow> exn + string" where
  "str_strip (JStr s) = Inr (strip s)"
| "str_strip j =
     Inl (Exn AttributeError
            (apos @ type_name j @ apos @ '' object has no attribute '' @ apos @ ''strip'' @ apos))"

definition raise_for_status :: "http_response \<Rightarrow> exn + unit" where
  "raise_for_status response =
     (if 400 \<le> status_code response \<and> status_code response < 500
        then Inl (Exn RequestException
                    (str_nat (status_code response) @ '' Client Error: '' @ reason response
                     @ '' for url: '' @ LLM_ENDPOINT))
      else if 500 \<le> status_code response \<and> status_code response < 600
        then Inl (Exn RequestException
                    (str_nat (status_code response) @ '' Server Error: '' @ reason response
                     @ '' for url: '' @ LLM_ENDPOINT))
      else Inr ())"

definition system_prompt :: string where
  "system_prompt =
     ''You are an expert Data Science teaching assistant for an online Degree in Data Science program. ''
   @ ''Your task is to provide precise answers to graded assignment questions, ensuring they match exactly what is expected.\<newline>\<newline>''
   @ ''Key guidelines:\<newline>''
   @ ''1. Provide exact answers without additional text or explanations.\<newline>''
   @ ''2. For numerical answers, give the exact number.\<newline>''
   @ ''3. For file-based questions, analyze the provided file information and perform necessary calculations or commands, providing the result.\<newline>''
   @ ''4. For command outputs, provide the exact output as it would appear, not a description or example. If execution is not possible, give a realistic lookalike output.\<newline>''
   @ ''5. For Google Sheets formulas, calculate the result and provide the numerical answer.\<newline>''
   @ ''6. For multi-step questions, break down the steps and provide the final answer.''"

definition message_prompt :: "string \<Rightarrow> string option \<Rightarrow> string" where
  "message_prompt question file_info =
     (let attached_file_info =
            (case file_info of
               None \<Rightarrow> []
             | Some fi \<Rightarrow>
                 if fi = [] then []
                 else ''Attached file information:\<newline>'' @ fi @ ''\<newline>'')
      in ''Assignment question: '' @ question @ ''\<newline>\<newline>''
         @ attached_file_info
         @ ''Please provide the exact answer to be entered in the assignment.'')"

definition payload :: "string \<Rightarrow> string option \<Rightarrow> json" where
  "payload question file_info =
     JObj [(''system_instruction'', JObj [(''parts'', JArr [JObj [(''text'', JStr system_prompt)]])]),
           (''contents'',
              JArr [JObj [(''role'', JStr ''user''),
                          (''parts'', JArr [JObj [(''text'', JStr (message_prompt question file_info))]])]]),
           (''generationConfig'', JObj [(''temperature'', JNum 0)]),
           (''tools'', JArr [JObj [(''google_search'', JObj [])]])]"

text \<open>The body of the \<open>try\<close> block of \<open>generate_response\<close>, after the request is sent.\<close>

definition extract_answer :: "http_response \<Rightarrow> exn + string" where
  "extract_answer response =
     and_then (raise_for_status response) (\<lambda>u.
     and_then (json_result response) (\<lambda>body.
     and_then (py_get body ''candidates'' (JArr [])) (\<lambda>candidates.
       if truthy candidates
       then and_then (item0 candidates) (\<lambda>candidate.
            and_then (item candidate ''content'') (\<lambda>content.
            and_then (item content ''parts'') (\<lambda>parts.
            and_then (item0 parts) (\<lambda>part.
            and_then (item part ''text'') str_strip))))
       else Inr ''Error: Could not extract answer from model response'')))"

definition generate_response ::
  "env \<Rightarrow> string \<Rightarrow> string option \<Rightarrow> (exn + string) \<times> effect list" where
  "generate_response env question file_info =
     (case and_then (llm_post env (payload question file_info)) extract_answer of
        Inr answer \<Rightarrow> (Inr answer, [RemoteCall (payload question file_info)])
      | Inl e \<Rightarrow>
          if isinstance e RequestException
            then (Inr (''Error calling LLM API: '' @ str_exn e),
                  [RemoteCall (payload question file_info)])
          else (Inl e, [RemoteCall (payload question file_info)]))"

section \<open>Answer dispatcher\<close>

text \<open>
  A request ends in a JSON response carrying the answer (\<open>Inr\<close>), or in a failure: an
  \<open>HTTPException\<close> with its status and detail, or an exception nothing handles.
\<close>

datatype failure = HTTPException nat string | Unhandled exn

definition getsize :: "fs \<Rightarrow> string \<Rightarrow> exn + nat" where
  "getsize files path =
     (case files path of None \<Rightarrow> Inl (file_not_found path) | Some b \<Rightarrow> Inr (length b))"

text \<open>Lines 306 to 312: the questions answered locally. \<open>None\<close> is Python's \<open>None\<close>.\<close>

definition local_answer ::
  "env \<Rightarrow> fs \<Rightarrow> string \<Rightarrow> string \<Rightarrow> string \<Rightarrow> string \<Rightarrow> string option \<times> effect list" where
  "local_answer env files question file_type file_path temp_dir =
     (if py_in ''sha256sum'' (lower question) \<and> file_type = ''md''
        then (Some (compute_sha256 env files file_path), [])
      else if py_in ''prettier'' (lower question) \<and> py_in ''sha256sum'' (lower question)
              \<and> file_type = ''md''
        then (case run_command env (''npx -y prettier@3.4.2 '' @ file_path @ '' | sha256sum'')
                     (Some temp_dir) of
                (out, effs) \<Rightarrow> (Some out, effs))
      else if py_in ''code -s'' (lower question)
        then (case run_command env ''code -s'' None of (out, effs) \<Rightarrow> (Some out, effs))
      else (None, []))"

text \<open>
  Lines 292 to 312, the body of the \<open>try\<close> block: save the upload, check its size,
  classify, summarize, answer locally. The result is the failure raised, or the pair
  \<open>(answer, file_info)\<close>.
\<close>

definition upload_try_body ::
  "nat \<Rightarrow> env \<Rightarrow> fs \<Rightarrow> string \<Rightarrow> string \<Rightarrow> string \<Rightarrow> bytes
     \<Rightarrow> (failure + string option \<times> string option) \<times> effect list \<times> fs" where
  "upload_try_body depth env files question temp_dir file_path content =
     (case write_error env file_path of
        Some e \<Rightarrow> (Inl (Unhandled e), [], files)
      | None \<Rightarrow>
         (let files1 = files(file_path \<mapsto> content) in
          case getsize files1 file_path of
            Inl e \<Rightarrow> (Inl (Unhandled e), [], files1)
          | Inr size_on_disk \<Rightarrow>
             if size_on_disk > MAX_FILE_SIZE
               then (Inl (HTTPException 400 ''File too large''), [], files1)
             else
               (let file_type = identify_file_type env files1 file_path in
                case collect_file_data depth env files1 file_path of
                  (files2, Inl e) \<Rightarrow> (Inl (Unhandled e), [], files2)
                | (files2, Inr file_info) \<Rightarrow>
                    (case local_answer env files2 question file_type file_path temp_dir of
                       (answer, effs) \<Rightarrow> (Inr (answer, Some file_info), effs, files2)))))"

text \<open>
  Lines 287 to 319: the temporary path, the \<open>try\<close> block and its \<open>finally\<close>,
  which removes the saved file. Directories are not part of the file system map, so
  \<open>os.rmdir\<close> changes nothing in it.
\<close>

definition upload_block ::
  "nat \<Rightarrow> env \<Rightarrow> fs \<Rightarrow> string \<Rightarrow> string \<Rightarrow> bytes
     \<Rightarrow> (failure + string option \<times> string option) \<times> effect list \<times> fs" where
  "upload_block depth env files question filename content =
     (let temp_dir = mkdtemp env;
          file_path = path_join temp_dir (secure_filename env filename)
      in case upload_try_body depth env files question temp_dir file_path content of
           (r, effs, files') \<Rightarrow> (r, effs, files'(file_path := None)))"

text \<open>Lines 321 to 324.\<close>

definition respond ::
  "env \<Rightarrow> fs \<Rightarrow> string \<Rightarrow> string option \<Rightarrow> string option \<Rightarrow> effect list
     \<Rightarrow> (failure + string) \<times> effect list \<times> fs" where
  "respond env files question answer file_info effs =
     (case answer of
        Some a \<Rightarrow> (Inr a, effs, files)
      | None \<Rightarrow>
          (case generate_response env question file_info of
             (Inl e, effs') \<Rightarrow> (Inl (Unhandled e), effs @ effs', files)
           | (Inr a, effs') \<Rightarrow> (Inr a, effs @ effs', files)))"

text \<open>
  Lines 287 to 324: what the endpoint does with an upload that passed validation, up to
  the response.
\<close>

definition process_upload ::
  "nat \<Rightarrow> env \<Rightarrow> fs \<Rightarrow> string \<Rightarrow> string \<Rightarrow> bytes
     \<Rightarrow> (failure + string) \<times> effect list \<times> fs" where
  "process_upload depth env files question filename content =
     (case upload_block depth env files question filename content of
        (Inl f, effs, files') \<Rightarrow> (Inl f, effs, files')
      | (Inr (answer, file_info), effs, files') \<Rightarrow>
          respond env files' question answer file_info effs)"

text \<open>
  The endpoint. \<open>file\<close> is the optional upload: its declared name and its bytes.
  \<open>is_file_allowed\<close> is a plain function returning \<open>bool\<close>; the source awaits its result.
\<close>

definition answer_question ::
  "nat \<Rightarrow> env \<Rightarrow> fs \<Rightarrow> string \<Rightarrow> (string \<times> bytes) option
     \<Rightarrow> (failure + string) \<times> effect list \<times> fs" where
  "answer_question depth env files question file =
     (case file of
        None \<Rightarrow> respond env files question None None []
      | Some (filename, content) \<Rightarrow>
         (case await_py (NotAwaitable ''bool'' (is_file_allowed filename)) of
            Inl e \<Rightarrow> (Inl (Unhandled e), [], files)
          | Inr allowed \<Rightarrow>
              if \<not> allowed then (Inl (HTTPException 400 ''Invalid file type''), [], files)
              else process_upload depth env files question filename content))"

section \<open>A sample environment\<close>

text \<open>
  A concrete environment for evaluating the program: every write and read succeeds,
  pandas finds no columns in an empty file and no table in anything else, every archive
  has a directory entry and one Markdown entry, the digest function knows the two
  standard SHA-256 test vectors (the empty input and \<open>abc\<close>), the diagnostic command
  prints a version line and the remote model answers \<open>42\<close>.
\<close>

definition known_digests :: "(bytes \<times> string) list" where
  "known_digests =
     [([], ''e3b0c44298fc1c149afbf4c8996fb92427ae41e4649b934ca495991b7852b855''),
      (''abc'', ''ba7816bf8f01cfea414140de5dae2223b00361a396177a9cb410ff61f20015ad'')]"

definition model_reply :: http_response where
  "model_reply =
     \<lparr>status_code = 200, reason = ''OK'',
      json_result =
        Inr (JObj [(''candidates'',
               JArr [JObj [(''content'',
                       JObj [(''parts'', JArr [JObj [(''text'', JStr '' 42\<newline>'')]])])]])])\<rparr>"

definition example_env :: env where
  "example_env =
     \<lparr>secure_filename = (\<lambda>name. name),
      gettempdir = ''/tmp'',
      mkdtemp = ''/tmp/tmpk3v9'',
      write_error = (\<lambda>path. None),
      read_error = (\<lambda>path. None),
      decode_text = (\<lambda>b. Inr b),
      csv_probe = (\<lambda>b. if b = [] then Inl (Exn EmptyDataError ''No columns to parse from file'')
                        else Inl (Exn ParserError ''Error tokenizing data'')),
      excel_probe = (\<lambda>b. Inl (Exn ValueError ''Excel file format cannot be determined'')),
      read_csv = (\<lambda>b. if b = [] then Inl (Exn EmptyDataError ''No columns to parse from file'')
                       else Inl (Exn ParserError ''Error tokenizing data'')),
      read_excel = (\<lambda>b. Inl (Exn ValueError ''Excel file format cannot be determined'')),
      zip_open = (\<lambda>b. Inr [(''docs/'', Inr []), (''docs/notes.md'', Inr ''# Title'')]),
      sha256_hexdigest = (\<lambda>b. case map_of known_digests b of Some d \<Rightarrow> d | None \<Rightarrow> []),
      run_process = (\<lambda>command cwd.
                       Inr \<lparr>returncode = 0, stdout = ''Version: Code 1.96.2\<newline>'', stderr = []\<rparr>),
      llm_post = (\<lambda>body. Inr model_reply)\<rparr>"

text \<open>A reply whose only candidate was stopped before producing any content.\<close>

definition blocked_reply :: http_response where
  "blocked_reply =
     \<lparr>status_code = 200, reason = ''OK'',
      json_result = Inr (JObj [(''candidates'', JArr [JObj [(''finishReason'', JStr ''SAFETY'')]])])\<rparr>"

section \<open>Properties of the string and loop primitives\<close>

lemma startswith_lower: "startswith s p \<Longrightarrow> startswith (lower s) (lower p)"
  by (induction s p rule: startswith.induct) (auto simp: lower_def)

lemma py_in_lower: "py_in sub s \<Longrightarrow> py_in (lower sub) (lower s)"
proof (induction s)
  case Nil
  then show ?case by (simp add: lower_def)
next
  case (Cons c cs)
  from Cons.prems have "startswith (c # cs) sub \<or> py_in sub cs" by simp
  then show ?case
  proof
    assume "startswith (c # cs) sub"
    then have "startswith (lower (c # cs)) (lower sub)" by (rule startswith_lower)
    then show ?thesis by (simp add: lower_def)
  next
    assume "py_in sub cs"
    then have "py_in (lower sub) (lower cs)" by (rule Cons.IH)
    then show ?thesis by (simp add: lower_def)
  qed
qed

lemma lower_sha256sum: "lower ''sha256sum'' = ''sha256sum''"
  by (simp add: lower_def lower_char_def)

text \<open>The chunked loop feeds the hash object exactly the bytes of the file, in order.\<close>

lemma sha256_loop_all: "sha256_loop rest h = h @ rest"
proof (induction rest h rule: sha256_loop.induct)
  case (1 rest h)
  show ?case
  proof (cases "take 8192 rest = []")
    case True
    then have "rest = []" by simp
    then show ?thesis by (simp add: sha256_loop.simps)
  next
    case False
    then have "sha256_loop rest h = sha256_loop (drop 8192 rest) (h @ take 8192 rest)"
      by (subst sha256_loop.simps) (simp add: Let_def)
    also have "\<dots> = (h @ take 8192 rest) @ drop 8192 rest"
      using False by (simp add: "1.IH")
    finally show ?thesis by simp
  qed
qed

section \<open>Properties of the summarizers\<close>

text \<open>
  The loop over the archive never appends a report: it ends with \<open>info\<close> as it was,
  or with the exception of the first entry that is not a directory.
\<close>

lemma zip_entries_result:
  "zip_entries depth env files entries info = (files, Inr info) \<or>
   (\<exists>e. zip_entries depth env files entries info = (files, Inl e))"
proof (induction entries)
  case Nil
  show ?case by (simp add: zip_entries.simps)
next
  case (Cons entry rest)
  obtain name member where entry: "entry = (name, member)" by (cases entry)
  show ?case
  proof (cases "endswith name ''/''")
    case True
    then show ?thesis using Cons.IH by (simp add: entry zip_entries.simps)
  next
    case False
    then show ?thesis by (cases member) (simp_all add: entry zip_entries.simps)
  qed
qed

lemma handle_csv_file_returns: "\<exists>s. handle_csv_file env files p k = Inr s"
  by (simp add: handle_csv_file_def split: sum.splits)

lemma handle_excel_file_returns: "\<exists>s. handle_excel_file env files p = Inr s"
  by (simp add: handle_excel_file_def split: sum.splits)

lemma handleMarkdownFile_returns: "\<exists>s. handleMarkdownFile env files p = Inr s"
  by (simp add: handleMarkdownFile_def split: sum.splits)

lemma handle_zip_file_returns: "\<exists>s. handle_zip_file depth env files p = (files, Inr s)"
proof (cases "and_then (open_read env files p) (zip_open env)")
  case (Inl e)
  then show ?thesis by (simp add: handle_zip_file.simps)
next
  case (Inr entries)
  from zip_entries_result [of depth env files entries "[]"] show ?thesis
    by (auto simp: handle_zip_file.simps Inr)
qed

lemma collect_file_data_returns: "\<exists>s. collect_file_data depth env files p = (files, Inr s)"
  using handle_zip_file_returns [of depth env files p]
    handle_csv_file_returns [of env files p 5]
    handle_excel_file_returns [of env files p]
    handleMarkdownFile_returns [of env files p]
  by (auto simp: collect_file_data.simps Let_def)

section \<open>Properties of the dispatcher\<close>

lemma upload_try_body_oversize:
  assumes "write_error env file_path = None" and "length content > MAX_FILE_SIZE"
  shows "upload_try_body depth env files question temp_dir file_path content =
           (Inl (HTTPException 400 ''File too large''), [], files(file_path \<mapsto> content))"
  using assms by (simp add: upload_try_body_def getsize_def)

lemma upload_try_body_within:
  assumes "write_error env file_path = None" and "length content \<le> MAX_FILE_SIZE"
  shows "\<exists>file_info.
           upload_try_body depth env files question temp_dir file_path content =
             (case local_answer env (files(file_path \<mapsto> content)) question
                     (identify_file_type env (files(file_path \<mapsto> content)) file_path)
                     file_path temp_dir of
                (answer, effs) \<Rightarrow>
                  (Inr (answer, Some file_info), effs, files(file_path \<mapsto> content)))
         \<and> collect_file_data depth env (files(file_path \<mapsto> content)) file_path
             = (files(file_path \<mapsto> content), Inr file_info)"
proof -
  obtain s where s: "collect_file_data depth env (files(file_path \<mapsto> content)) file_path
      = (files(file_path \<mapsto> content), Inr s)"
    using collect_file_data_returns by blast
  show ?thesis
    using assms s by (simp add: upload_try_body_def getsize_def Let_def)
qed

lemma respond_not_http:
  "fst (respond env files question answer file_info effs) \<noteq> Inl (HTTPException n d)"
  by (simp add: respond_def split: option.splits prod.splits sum.splits)

lemma compute_sha256_digest:
  assumes "read_error env p = None" and "files p = Some content"
  shows "compute_sha256 env files p = sha256_hexdigest env content"
  using assms by (simp add: compute_sha256_def open_read_def sha256_loop_all)

lemma local_answer_sha256sum:
  assumes "py_in ''sha256sum'' question" and "file_type = ''md''"
  shows "local_answer env files question file_type file_path temp_dir
           = (Some (compute_sha256 env files file_path), [])"
proof -
  from py_in_lower [OF assms(1)] have "py_in ''sha256sum'' (lower question)"
    by (simp add: lower_sha256sum)
  with assms(2) show ?thesis by (simp add: local_answer_def)
qed







text \<open>
  Lines 287 to 324 on a Markdown upload and a question that contains \<open>sha256sum\<close>:
  when the upload is saved with at most 52,428,800 bytes and can be read back, the answer
  is the digest of exactly the bytes uploaded, with no command run and no remote call.
  By \<open>compute_sha256_digest\<close> the chunked loop gives the digest of the whole content
  for a file of any length.
\<close>

lemma sha256sum_answer_is_digest:
  assumes saved: "write_error env (path_join (mkdtemp env) (secure_filename env filename)) = None"
    and readable: "read_error env (path_join (mkdtemp env) (secure_filename env filename)) = None"
    and size: "length content \<le> 52428800"
    and asked: "py_in ''sha256sum'' question"
    and md: "identify_file_type env
               (files(path_join (mkdtemp env) (secure_filename env filename) \<mapsto> content))
               (path_join (mkdtemp env) (secure_filename env filename)) = ''md''"
  shows "process_upload depth env files question filename content
           = (Inr (sha256_hexdigest env content), [],
              files(path_join (mkdtemp env) (secure_filename env filename) := None))
       \<and> compute_sha256 env
            (files(path_join (mkdtemp env) (secure_filename env filename) \<mapsto> content))
            (path_join (mkdtemp env) (secure_filename env filename))
           = sha256_hexdigest env content"
proof -
  let ?p = "path_join (mkdtemp env) (secure_filename env filename)"
  let ?files1 = "files(?p \<mapsto> content)"
  have le: "length content \<le> MAX_FILE_SIZE" using size by (simp add: MAX_FILE_SIZE_def)
  have digest: "compute_sha256 env ?files1 ?p = sha256_hexdigest env content"
    using readable by (simp add: compute_sha256_digest)
  from upload_try_body_within [OF saved le, of depth files question "mkdtemp env"]
  obtain file_info where body:
    "upload_try_body depth env files question (mkdtemp env) ?p content =
       (case local_answer env ?files1 question (identify_file_type env ?files1 ?p) ?p (mkdtemp env) of
          (answer, effs) \<Rightarrow> (Inr (answer, Some file_info), effs, ?files1))"
    by blast
  have "local_answer env ?files1 question (identify_file_type env ?files1 ?p) ?p (mkdtemp env)
          = (Some (sha256_hexdigest env content), [])"
    using local_answer_sha256sum [OF asked md] digest by simp
  with body have "upload_try_body depth env files question (mkdtemp env) ?p content =
       (Inr (Some (sha256_hexdigest env content), Some file_info), [], ?files1)"
    by simp
  then have "process_upload depth env files question filename content
           = (Inr (sha256_hexdigest env content), [], files(?p := None))"
    by (simp add: process_upload_def upload_block_def Let_def respond_def)
  with digest show ?thesis by simp
qed

lemma sha256sum_answer_is_digest_example:
  "write_error example_env
     (path_join (mkdtemp example_env) (secure_filename example_env ''notes.md'')) = None
   \<and> read_error example_env
     (path_join (mkdtemp example_env) (secure_filename example_env ''notes.md'')) = None
   \<and> py_in ''sha256sum'' ''What is the sha256sum of this file?''
   \<and> process_upload 0 example_env Map.empty ''What is the sha256sum of this file?''
        ''notes.md'' []
      = (Inr ''e3b0c44298fc1c149afbf4c8996fb92427ae41e4649b934ca495991b7852b855'', [], Map.empty)
   \<and> process_upload 0 example_env Map.empty ''What is the sha256sum of this file?''
        ''notes.md'' ''abc''
      = (Inr ''ba7816bf8f01cfea414140de5dae2223b00361a396177a9cb410ff61f20015ad'', [], Map.empty)"
proof -
  have p: "path_join (mkdtemp example_env) (secure_filename example_env ''notes.md'')
             = ''/tmp/tmpk3v9/notes.md''"
    by (simp add: example_env_def path_join_def endswith_def)
  have w: "write_error example_env ''/tmp/tmpk3v9/notes.md'' = None"
    and r: "read_error example_env ''/tmp/tmpk3v9/notes.md'' = None"
    by (simp_all add: example_env_def)
  have q: "py_in ''sha256sum'' ''What is the sha256sum of this file?''" by simp
  have md: "identify_file_type example_env fl ''/tmp/tmpk3v9/notes.md'' = ''md''" for fl
    by (simp add: identify_file_type_def splitext_def basename_def lower_def lower_char_def
          extension_map_def)
  have d0: "sha256_hexdigest example_env []
              = ''e3b0c44298fc1c149afbf4c8996fb92427ae41e4649b934ca495991b7852b855''"
    and d1: "sha256_hexdigest example_env ''abc''
              = ''ba7816bf8f01cfea414140de5dae2223b00361a396177a9cb410ff61f20015ad''"
    by (simp_all add: example_env_def known_digests_def)
  have a: "process_upload 0 example_env Map.empty ''What is the sha256sum of this file?''
        ''notes.md'' [] = (Inr (sha256_hexdigest example_env []), [], Map.empty)"
    using sha256sum_answer_is_digest [of example_env "''notes.md''" "[]"
            "''What is the sha256sum of this file?''" Map.empty 0] w r q md
    by (simp add: p)
  have b: "process_upload 0 example_env Map.empty ''What is the sha256sum of this file?''
        ''notes.md'' ''abc'' = (Inr (sha256_hexdigest example_env ''abc''), [], Map.empty)"
    using sha256sum_answer_is_digest [of example_env "''notes.md''" "''abc''"
            "''What is the sha256sum of this file?''" Map.empty 0] w r q md
    by (simp add: p)
  from a b d0 d1 w r q show ?thesis by (simp add: p)
qed

section \<open>Properties of the remote call\<close>

text \<open>
  The failures \<open>generate_response\<close> turns into an answer: an exception of the
  requests library, an error status, and a reply without candidates.
\<close>

lemma generate_response_handled:
  "llm_post env (payload question file_info) = Inl e \<Longrightarrow> isinstance e RequestException \<Longrightarrow>
     fst (generate_response env question file_info) = Inr (''Error calling LLM API: '' @ str_exn e)"
  "llm_post env (payload question file_info) = Inr response \<Longrightarrow>
     400 \<le> status_code response \<Longrightarrow> status_code response < 600 \<Longrightarrow>
     \<exists>msg. fst (generate_response env question file_info) = Inr (''Error calling LLM API: '' @ msg)"
  "llm_post env (payload question file_info) = Inr response \<Longrightarrow>
     raise_for_status response = Inr () \<Longrightarrow> json_result response = Inr (JObj kvs) \<Longrightarrow>
     dict_lookup kvs ''candidates'' = None \<or> dict_lookup kvs ''candidates'' = Some (JArr []) \<Longrightarrow>
     fst (generate_response env question file_info)
       = Inr ''Error: Could not extract answer from model response''"
  by (auto simp: generate_response_def extract_answer_def and_then_def raise_for_status_def
        isinstance_def is_subclass_def)

section \<open>The claims\<close>

text \<open>
  Claim C1. The claim asks that a file whose extension is outside the allowed set is
  rejected with 400 \<open>Invalid file type\<close>. A request with the file \<open>report.exe\<close> ends
  in the \<open>TypeError\<close> of the awaited \<open>bool\<close> instead, although \<open>is_file_allowed\<close>
  itself says no. And \<open>is_file_allowed\<close> compares the end of the name, not its
  extension: \<open>archive.notzip\<close>, whose extension is \<open>.notzip\<close>, is allowed.
\<close>

theorem invalid_type_not_rejected:
  "answer_question depth env files question (Some (''report.exe'', content))
     = (Inl (Unhandled (Exn TypeError ''object bool can't be used in 'await' expression'')),
        [], files)
   \<and> \<not> is_file_allowed ''report.exe''
   \<and> is_file_allowed ''archive.notzip''
   \<and> snd (splitext ''archive.notzip'') = ''.notzip''"
  by (simp add: answer_question_def is_file_allowed_def ALLOWED_EXTENSIONS_def endswith_def
        lower_def lower_char_def splitext_def basename_def)

text \<open>
  Claim C2. Every request that carries a file ends in the \<open>TypeError\<close> raised by
  awaiting the \<open>bool\<close> that \<open>is_file_allowed\<close> returns: before any validation verdict,
  with nothing saved, nothing run and no remote call, whatever the file's name, its
  content, the question and the environment are.
\<close>

theorem upload_request_raises_type_error:
  "answer_question depth env files question (Some (filename, content)) =
     (Inl (Unhandled (Exn TypeError ''object bool can't be used in 'await' expression'')),
      [], files)"
  by (simp add: answer_question_def)

text \<open>
  Claim C3, as stated, fails: the question \<open>code -s\<close> without a file is sent to the
  remote model, whose reply is the answer; no command is run.
\<close>

theorem code_s_without_file_counterexample:
  "py_in ''code -s'' ''code -s''
   \<and> answer_question 0 example_env Map.empty ''code -s'' None
       = (Inr ''42'', [RemoteCall (payload ''code -s'' None)], Map.empty)"
  by (simp add: answer_question_def respond_def generate_response_def example_env_def
        model_reply_def extract_answer_def and_then_def raise_for_status_def dict_lookup_def
        strip_def is_space_def)

text \<open>
  Claim C3, amended. For every request without a file, whatever the question says, the
  only effect is one call of the remote model with the question and no file information;
  what \<open>generate_response\<close> returns is the answer, what it raises ends the request, and
  no command is run.
\<close>

theorem no_upload_always_remote:
  "answer_question depth env files question None
     = (case fst (generate_response env question None) of
          Inl e \<Rightarrow> Inl (Unhandled e)
        | Inr answer \<Rightarrow> Inr answer,
        [RemoteCall (payload question None)], files)
   \<and> RunCommand command cwd \<notin> set (fst (snd (answer_question depth env files question None)))"
  by (simp add: answer_question_def respond_def generate_response_def split: sum.splits)

text \<open>
  Claim C4. The claim asks for an error string whenever the reply has no usable answer
  field. For a reply with status 200 whose only candidate has no \<open>content\<close>,
  \<open>generate_response\<close> raises \<open>KeyError\<close>, which its \<open>except\<close> clause does not catch,
  and the request ends with that exception instead of a response.
\<close>

theorem candidate_without_content_raises:
  "generate_response (example_env\<lparr>llm_post := \<lambda>body. Inr blocked_reply\<rparr>) question file_info
     = (Inl (Exn KeyError (apos @ ''content'' @ apos)), [RemoteCall (payload question file_info)])
   \<and> fst (answer_question depth (example_env\<lparr>llm_post := \<lambda>body. Inr blocked_reply\<rparr>)
             files question None)
     = Inl (Unhandled (Exn KeyError (apos @ ''content'' @ apos)))"
  by (simp add: answer_question_def respond_def generate_response_def example_env_def
        blocked_reply_def extract_answer_def and_then_def raise_for_status_def dict_lookup_def
        isinstance_def is_subclass_def)

text \<open>
  Claim C5. The claim asks for one report block per entry. \<open>zipfile.ZipFile\<close> is
  given the aiofiles handle, whose \<open>read()\<close> returns a coroutine, so opening the
  archive raises \<open>TypeError\<close> and the result is the single error string of the handler
  (third statement). Were the entries listed, as in the sample environment, awaiting the
  bytes read from the first file entry would raise \<open>TypeError\<close> as well (first
  statement). For every archive and every environment the result is the empty string or
  such an error string; no report block is ever produced (second statement).
\<close>

theorem archive_entry_not_reported:
  "handle_zip_file depth example_env [''/tmp/tmpk3v9/docs.zip'' \<mapsto> ''PK''] ''/tmp/tmpk3v9/docs.zip''
     = ([''/tmp/tmpk3v9/docs.zip'' \<mapsto> ''PK''],
        Inr ''Error processing ZIP file: object bytes can't be used in 'await' expression'')
   \<and> (snd (handle_zip_file depth env files zip_path) = Inr []
        \<or> (\<exists>e. snd (handle_zip_file depth env files zip_path)
                 = Inr (''Error processing ZIP file: '' @ str_exn e)))
   \<and> handle_zip_file depth
         (example_env\<lparr>zip_open :=
            \<lambda>b. Inl (Exn TypeError ''object of type 'coroutine' has no len()'')\<rparr>)
         [''/tmp/tmpk3v9/docs.zip'' \<mapsto> ''PK''] ''/tmp/tmpk3v9/docs.zip''
     = ([''/tmp/tmpk3v9/docs.zip'' \<mapsto> ''PK''],
        Inr ''Error processing ZIP file: object of type 'coroutine' has no len()'')"
proof -
  have "handle_zip_file depth example_env [''/tmp/tmpk3v9/docs.zip'' \<mapsto> ''PK'']
          ''/tmp/tmpk3v9/docs.zip''
     = ([''/tmp/tmpk3v9/docs.zip'' \<mapsto> ''PK''],
        Inr ''Error processing ZIP file: object bytes can't be used in 'await' expression'')"
    by (simp add: handle_zip_file.simps zip_entries.simps and_then_def open_read_def
          example_env_def endswith_def)
  moreover have "snd (handle_zip_file depth env files zip_path) = Inr []
        \<or> (\<exists>e. snd (handle_zip_file depth env files zip_path)
                 = Inr (''Error processing ZIP file: '' @ str_exn e))"
  proof (cases "and_then (open_read env files zip_path) (zip_open env)")
    case (Inl e)
    then show ?thesis by (auto simp: handle_zip_file.simps)
  next
    case (Inr entries)
    from zip_entries_result [of depth env files entries "[]"] show ?thesis
      by (auto simp: handle_zip_file.simps Inr)
  qed
  moreover have "handle_zip_file depth
         (example_env\<lparr>zip_open :=
            \<lambda>b. Inl (Exn TypeError ''object of type 'coroutine' has no len()'')\<rparr>)
         [''/tmp/tmpk3v9/docs.zip'' \<mapsto> ''PK''] ''/tmp/tmpk3v9/docs.zip''
     = ([''/tmp/tmpk3v9/docs.zip'' \<mapsto> ''PK''],
        Inr ''Error processing ZIP file: object of type 'coroutine' has no len()'')"
    by (simp add: handle_zip_file.simps and_then_def open_read_def example_env_def)
  ultimately show ?thesis by blast
qed

text \<open>
  Claim C6, as stated, fails: a file with no extension and no content, on which the CSV
  probe reports empty data, is classified \<open>unknown\<close>.
\<close>

theorem empty_file_is_unknown_counterexample:
  "snd (splitext ''/tmp/tmpk3v9/upload'') = []
   \<and> and_then (open_read example_env [''/tmp/tmpk3v9/upload'' \<mapsto> []] ''/tmp/tmpk3v9/upload'')
        (csv_probe example_env) = Inl (Exn EmptyDataError ''No columns to parse from file'')
   \<and> identify_file_type example_env [''/tmp/tmpk3v9/upload'' \<mapsto> []] ''/tmp/tmpk3v9/upload''
       = ''unknown''"
  by (simp add: identify_file_type_def splitext_def basename_def lower_def extension_map_def
        and_then_def open_read_def example_env_def isinstance_def is_subclass_def)

text \<open>
  Claim C6, amended. For a file whose extension is not in the table: if the CSV probe
  raises the empty-data error the type is \<open>unknown\<close>; the type is \<open>csv\<close> exactly when
  the CSV probe succeeds; and it is \<open>unknown\<close> exactly when the CSV probe raises the
  empty-data error, or raises another error and the spreadsheet probe raises too.
\<close>

theorem unrecognized_extension_classification:
  assumes ext: "map_of extension_map (lower (snd (splitext file_path))) = None"
  shows "(\<forall>e. and_then (open_read env files file_path) (csv_probe env) = Inl e
              \<and> isinstance e EmptyDataError
            \<longrightarrow> identify_file_type env files file_path = ''unknown'')
       \<and> ((identify_file_type env files file_path = ''csv'')
            = (\<exists>u. and_then (open_read env files file_path) (csv_probe env) = Inr u))
       \<and> ((identify_file_type env files file_path = ''unknown'')
            = (\<exists>e. and_then (open_read env files file_path) (csv_probe env) = Inl e
                   \<and> (isinstance e EmptyDataError
                        \<or> (\<exists>e'. and_then (open_read env files file_path) (excel_probe env)
                                   = Inl e'))))"
  using ext by (auto simp: identify_file_type_def split: sum.splits)

theorem unrecognized_extension_classification_witness:
  "map_of extension_map (lower (snd (splitext ''/tmp/tmpk3v9/upload''))) = None
   \<and> and_then (open_read example_env [''/tmp/tmpk3v9/upload'' \<mapsto> []] ''/tmp/tmpk3v9/upload'')
        (csv_probe example_env) = Inl (Exn EmptyDataError ''No columns to parse from file'')
   \<and> isinstance (Exn EmptyDataError ''No columns to parse from file'') EmptyDataError
   \<and> identify_file_type example_env [''/tmp/tmpk3v9/upload'' \<mapsto> []] ''/tmp/tmpk3v9/upload''
       = ''unknown''"
proof -
  have ext: "map_of extension_map (lower (snd (splitext ''/tmp/tmpk3v9/upload''))) = None"
    by (simp add: splitext_def basename_def lower_def extension_map_def)
  have probe: "and_then (open_read example_env [''/tmp/tmpk3v9/upload'' \<mapsto> []] ''/tmp/tmpk3v9/upload'')
        (csv_probe example_env) = Inl (Exn EmptyDataError ''No columns to parse from file'')"
    by (simp add: and_then_def open_read_def example_env_def)
  have inst: "isinstance (Exn EmptyDataError ''No columns to parse from file'') EmptyDataError"
    by (simp add: isinstance_def is_subclass_def)
  from unrecognized_extension_classification [OF ext, of example_env
         "[''/tmp/tmpk3v9/upload'' \<mapsto> []]"] probe inst
  have "identify_file_type example_env [''/tmp/tmpk3v9/upload'' \<mapsto> []] ''/tmp/tmpk3v9/upload''
       = ''unknown''" by blast
  with ext probe inst show ?thesis by blast
qed

text \<open>
  Claim C7. The claim asks that a question containing \<open>sha256sum\<close> on a Markdown file
  is answered with the SHA-256 digest of the file's bytes. The request with the file
  \<open>notes.md\<close>, which the classifier maps to \<open>md\<close>, ends in the \<open>TypeError\<close> of
  the awaited \<open>bool\<close> for every content, the empty one and one of several chunks
  included: no digest is computed and no answer is returned.
\<close>

theorem sha256sum_request_raises_type_error:
  "py_in ''sha256sum'' ''What is the sha256sum of this file?''
   \<and> identify_file_type env fl
         (path_join (mkdtemp example_env) (secure_filename example_env ''notes.md'')) = ''md''
   \<and> answer_question depth env files ''What is the sha256sum of this file?''
         (Some (''notes.md'', []))
       = (Inl (Unhandled (Exn TypeError ''object bool can't be used in 'await' expression'')),
          [], files)
   \<and> answer_question depth env files ''What is the sha256sum of this file?''
         (Some (''notes.md'', content))
       = (Inl (Unhandled (Exn TypeError ''object bool can't be used in 'await' expression'')),
          [], files)
   \<and> fst (answer_question depth env files ''What is the sha256sum of this file?''
              (Some (''notes.md'', content)))
       \<noteq> Inr (sha256_hexdigest env content)"
  by (simp add: answer_question_def identify_file_type_def splitext_def basename_def lower_def
        lower_char_def extension_map_def example_env_def path_join_def endswith_def)

text \<open>
  Claim C8. Once the upload is saved (the write at line 293 succeeded), the request fails
  with 400 \<open>File too large\<close> exactly when the stored size is above 52,428,800 bytes; a
  file of exactly that size is not rejected. An oversized file is rejected with no
  command run and no remote call, and the result does not depend on what classification
  or summarization would have returned; only the saved file is removed again.
\<close>

theorem size_check_after_save:
  assumes saved: "write_error env (path_join (mkdtemp env) (secure_filename env filename)) = None"
  shows "((fst (process_upload depth env files question filename content)
             = Inl (HTTPException 400 ''File too large'')) = (52428800 < length content))
       \<and> (52428800 < length content \<longrightarrow>
            process_upload depth env files question filename content =
              (Inl (HTTPException 400 ''File too large''), [],
               files(path_join (mkdtemp env) (secure_filename env filename) := None)))"
proof -
  let ?p = "path_join (mkdtemp env) (secure_filename env filename)"
  have max: "MAX_FILE_SIZE = 52428800" by (simp add: MAX_FILE_SIZE_def)
  have big: "process_upload depth env files question filename content =
             (Inl (HTTPException 400 ''File too large''), [], files(?p := None))"
    if "52428800 < length content"
    using that upload_try_body_oversize [OF saved, of content depth files question "mkdtemp env"]
    by (simp add: process_upload_def upload_block_def Let_def max)
  have small: "fst (process_upload depth env files question filename content)
         \<noteq> Inl (HTTPException 400 ''File too large'')"
    if "\<not> 52428800 < length content"
  proof -
    from that have le: "length content \<le> MAX_FILE_SIZE" by (simp add: max)
    from upload_try_body_within [OF saved le, of depth files question "mkdtemp env"]
    obtain file_info where
      "upload_try_body depth env files question (mkdtemp env) ?p content =
           (case local_answer env (files(?p \<mapsto> content)) question
                   (identify_file_type env (files(?p \<mapsto> content)) ?p) ?p (mkdtemp env) of
              (answer, effs) \<Rightarrow> (Inr (answer, Some file_info), effs, files(?p \<mapsto> content)))"
      by blast
    then show ?thesis
      by (simp add: process_upload_def upload_block_def Let_def respond_not_http
               split: prod.splits)
  qed
  from big small show ?thesis by auto
qed

theorem size_check_after_save_witness:
  "write_error example_env
     (path_join (mkdtemp example_env) (secure_filename example_env ''big.csv'')) = None
   \<and> process_upload 0 example_env Map.empty ''total sales?'' ''big.csv''
        (replicate 52428801 (CHR ''a''))
      = (Inl (HTTPException 400 ''File too large''), [], Map.empty)
   \<and> fst (process_upload 0 example_env Map.empty ''total sales?'' ''big.csv''
        (replicate 52428800 (CHR ''a''))) \<noteq> Inl (HTTPException 400 ''File too large'')"
  using size_check_after_save [of example_env "''big.csv''" 0 Map.empty "''total sales?''"
          "replicate 52428801 (CHR ''a'')"]
        size_check_after_save [of example_env "''big.csv''" 0 Map.empty "''total sales?''"
          "replicate 52428800 (CHR ''a'')"]
  by (simp add: example_env_def)





end
